theory Spec2Isabelle
  imports Main
begin

section \<open>gmaps-gpx: the core library (lib.ts)\<close>

text \<open>
  The library turns a Google Maps URL into a list of waypoints (\<open>parseGoogleMapsUrl\<close>),
  renders the waypoints as a GPX 1.1 document (\<open>generateGpx\<close>) and derives a file name
  (\<open>slugify\<close>, \<open>getTimestamp\<close>, \<open>generateOutputFilename\<close>).

  A JavaScript string is a sequence of UTF-16 code units. It is modelled as a \<open>string\<close>
  whose characters are the code units 0 to 255; strings that hold higher code units are
  outside the model. Every regular expression of the source is written out as the
  scanning function it denotes.
\<close>

subsection \<open>The platform\<close>

text \<open>
  The source calls into the JavaScript platform: \<open>new URL(url)\<close> and
  \<open>urlObj.searchParams.get\<close>, \<open>decodeURIComponent\<close>, \<open>parseFloat\<close>, the comparison of
  a number with \<open>0\<close>, the conversion of a number to a string inside a template literal,
  and \<open>new Date()\<close>. None of these is code of the repository; the model takes them as a
  record of functions, and every theorem holds for any such record. \<open>'u\<close> is the type of
  URL objects and \<open>'n\<close> the type of numbers (IEEE doubles on the real platform).
\<close>

datatype error =
    TypeError         \<comment> \<open>\<open>new URL(url)\<close> rejects the string\<close>
  | URIError          \<comment> \<open>\<open>decodeURIComponent\<close> rejects a malformed escape sequence\<close>
  | ExtractionError   \<comment> \<open>the \<open>Error\<close> thrown when no coordinate is left (lib.ts, line 160)\<close>

record date =
  getFullYear :: nat
  getMonth :: nat       \<comment> \<open>0 to 11\<close>
  getDate :: nat
  getHours :: nat
  getMinutes :: nat
  getSeconds :: nat

record ('u, 'n) platform =
  new_URL :: "string \<Rightarrow> 'u option"                   \<comment> \<open>\<open>None\<close>: a \<open>TypeError\<close> is thrown\<close>
  searchParams_get :: "'u \<Rightarrow> string \<Rightarrow> string option"  \<comment> \<open>\<open>None\<close>: \<open>null\<close>\<close>
  decodeURIComponent :: "string \<Rightarrow> string option"    \<comment> \<open>\<open>None\<close>: a \<open>URIError\<close> is thrown\<close>
  parseFloat :: "string \<Rightarrow> 'n"
  is_zero :: "'n \<Rightarrow> bool"                              \<comment> \<open>\<open>n === 0\<close>\<close>
  number_to_string :: "'n \<Rightarrow> string"                    \<comment> \<open>\<open>`${n}`\<close>\<close>
  new_Date :: date                                       \<comment> \<open>the local time read by \<open>new Date()\<close>\<close>

subsection \<open>Data model\<close>

record 'n Coordinate =
  lat :: 'n
  lng :: 'n
  name :: "string option"    \<comment> \<open>\<open>name?: string\<close>; \<open>None\<close> is \<open>undefined\<close>\<close>

record 'n RouteData =
  waypoints :: "'n Coordinate list"
  routeName :: string

subsection \<open>String primitives\<close>

text \<open>\<open>a || b\<close> on an optional string: \<open>undefined\<close> and the empty string are falsy.\<close>

definition or_else :: "string option \<Rightarrow> string \<Rightarrow> string" where
  "or_else a b = (case a of None \<Rightarrow> b | Some s \<Rightarrow> if s = [] then b else s)"

text \<open>The decimal form of a natural number, as a template literal prints an array index.\<close>

definition digit_char :: "nat \<Rightarrow> char" where
  "digit_char d = char_of (48 + d)"

fun string_of_nat :: "nat \<Rightarrow> string" where
  "string_of_nat n =
     (if n < 10 then [digit_char n] else string_of_nat (n div 10) @ [digit_char (n mod 10)])"

declare string_of_nat.simps [simp del]

text \<open>
  \<open>s.replace(/[class]/g, rep)\<close>: every character of the class is replaced, left to
  right; \<open>replace_char\<close> is the case of a single literal character, \<open>/c/g\<close>.
\<close>

primrec replace_each :: "(char \<Rightarrow> bool) \<Rightarrow> string \<Rightarrow> string \<Rightarrow> string" where
  "replace_each cls rep [] = []"
| "replace_each cls rep (x # xs) =
     (if cls x then rep @ replace_each cls rep xs else x # replace_each cls rep xs)"

definition replace_char :: "char \<Rightarrow> string \<Rightarrow> string \<Rightarrow> string" where
  "replace_char c rep s = replace_each (\<lambda>x. x = c) rep s"

subsection \<open>generateGpx\<close>

definition escapeXml :: "string \<Rightarrow> string" where
  "escapeXml str =
     replace_char (CHR 0x27) ''&apos;''
       (replace_char (CHR 0x22) ''&quot;''
         (replace_char CHR ''>'' ''&gt;''
           (replace_char CHR ''<'' ''&lt;''
             (replace_char CHR ''&'' ''&amp;'' str))))"

definition gpx_header :: "string \<Rightarrow> string" where
  "gpx_header escaped_name =
     ''<?xml version=\"1.0\" encoding=\"UTF-8\"?>\<newline>'' @
     ''<gpx version=\"1.1\" creator=\"gmaps-gpx\"\<newline>'' @
     ''  xmlns=\"http://www.topografix.com/GPX/1/1\"\<newline>'' @
     ''  xmlns:xsi=\"http://www.w3.org/2001/XMLSchema-instance\"\<newline>'' @
     ''  xsi:schemaLocation=\"http://www.topografix.com/GPX/1/1 http://www.topografix.com/GPX/1/1/gpx.xsd\">\<newline>'' @
     ''  <trk>\<newline>'' @
     ''    <name>'' @ escaped_name @ ''</name>\<newline>'' @
     ''    <trkseg>\<newline>''"

definition gpx_trkpt :: "('u, 'n) platform \<Rightarrow> nat \<Rightarrow> 'n Coordinate \<Rightarrow> string" where
  "gpx_trkpt P index wp =
     (let wp_name = or_else (name wp) (''Waypoint '' @ string_of_nat (index + 1)) in
      ''      <trkpt lat=\"'' @ number_to_string P (lat wp) @
      ''\" lon=\"'' @ number_to_string P (lng wp) @ ''\">\<newline>'' @
      ''        <name>'' @ escapeXml wp_name @ ''</name>\<newline>'' @
      ''      </trkpt>\<newline>'')"

definition gpx_footer :: string where
  "gpx_footer =
     ''    </trkseg>\<newline>'' @
     ''  </trk>\<newline>'' @
     ''</gpx>\<newline>''"

text \<open>\<open>waypoints.forEach((wp, index) => { gpx += ... })\<close>: the accumulator and the index.\<close>

fun forEach_trkpt ::
  "('u, 'n) platform \<Rightarrow> string \<Rightarrow> nat \<Rightarrow> 'n Coordinate list \<Rightarrow> string" where
  "forEach_trkpt P gpx index [] = gpx"
| "forEach_trkpt P gpx index (wp # wps) =
     forEach_trkpt P (gpx @ gpx_trkpt P index wp) (Suc index) wps"

definition generateGpx ::
  "('u, 'n) platform \<Rightarrow> 'n RouteData \<Rightarrow> string option \<Rightarrow> string" where
  "generateGpx P routeData customRouteName =
     (let route_name = or_else customRouteName (routeName routeData);
          gpx = gpx_header (escapeXml route_name);
          gpx = forEach_trkpt P gpx 0 (waypoints routeData)
      in gpx @ gpx_footer)"

subsection \<open>slugify, getTimestamp, generateOutputFilename\<close>

text \<open>
  Character classes of the regular expressions (no \<open>u\<close>, \<open>i\<close> or \<open>m\<close> flag is used):
  \<open>\d\<close>, \<open>\w\<close> and \<open>\s\<close>. Among the code units 0 to 255, \<open>\s\<close> and \<open>trim\<close> take
  the same characters as white space: TAB, LF, VT, FF, CR, SPACE and NO-BREAK SPACE.
\<close>

definition is_digit :: "char \<Rightarrow> bool" where
  "is_digit c = (c \<in> set ''0123456789'')"

definition is_word :: "char \<Rightarrow> bool" where
  "is_word c =
     (c \<in> set ''abcdefghijklmnopqrstuvwxyzABCDEFGHIJKLMNOPQRSTUVWXYZ0123456789_'')"

definition is_space :: "char \<Rightarrow> bool" where
  "is_space c =
     (c \<in> set [CHR 0x09, CHR 0x0A, CHR 0x0B, CHR 0x0C, CHR 0x0D, CHR '' '', CHR 0xA0])"

text \<open>
  \<open>toLowerCase\<close>: among the code units 0 to 255 the letters with a lower-case form are
  A to Z and the Latin-1 capitals U+00C0 to U+00DE without the multiplication sign U+00D7;
  each moves up by 32.
\<close>

definition lower_char :: "char \<Rightarrow> char" where
  "lower_char c =
     (let n = of_char c :: nat in
      if (65 \<le> n \<and> n \<le> 90) \<or> (192 \<le> n \<and> n \<le> 222 \<and> n \<noteq> 215) then char_of (n + 32) else c)"

definition toLowerCase :: "string \<Rightarrow> string" where
  "toLowerCase s = map lower_char s"

definition trim :: "string \<Rightarrow> string" where
  "trim s = rev (dropWhile is_space (rev (dropWhile is_space s)))"

text \<open>
  \<open>s.replace(/[class]+/g, rep)\<close>: at a character of the class the match runs as far as
  the class does, and scanning resumes behind it.
\<close>

function replace_runs :: "(char \<Rightarrow> bool) \<Rightarrow> string \<Rightarrow> string \<Rightarrow> string" where
  "replace_runs cls rep [] = []"
| "replace_runs cls rep (x # xs) =
     (if cls x then rep @ replace_runs cls rep (dropWhile cls xs)
      else x # replace_runs cls rep xs)"
  by pat_completeness auto
termination
  by (relation "measure (\<lambda>(cls, rep, s). length s)")
     (auto simp: le_imp_less_Suc length_dropWhile_le)

text \<open>
  \<open>s.replace(/^-+|-+$/g, "")\<close>. The first alternative matches at position 0 only and
  takes the leading hyphens. Behind it, and at every later position, only \<open>-+$\<close> can
  match: it does where nothing but hyphens is left, and it takes them all.
\<close>

primrec replace_hyphens_at_end :: "string \<Rightarrow> string" where
  "replace_hyphens_at_end [] = []"
| "replace_hyphens_at_end (x # xs) =
     (if x = CHR ''-'' \<and> list_all (\<lambda>c. c = CHR ''-'') xs then []
      else x # replace_hyphens_at_end xs)"

definition replace_edge_hyphens :: "string \<Rightarrow> string" where
  "replace_edge_hyphens s = replace_hyphens_at_end (dropWhile (\<lambda>c. c = CHR ''-'') s)"

definition slugify :: "string \<Rightarrow> string" where
  "slugify text =
     replace_edge_hyphens
       (replace_runs (\<lambda>c. is_space c \<or> c = CHR ''_'' \<or> c = CHR ''-'') ''-''
         (replace_each (\<lambda>c. \<not> (is_word c \<or> is_space c \<or> c = CHR ''-'')) ''''
           (trim (toLowerCase text))))"

text \<open>\<open>String(n).padStart(2, "0")\<close>\<close>

definition padStart2 :: "string \<Rightarrow> string" where
  "padStart2 s = replicate (2 - length s) CHR ''0'' @ s"

definition getTimestamp :: "('u, 'n) platform \<Rightarrow> string" where
  "getTimestamp P =
     (let now = new_Date P;
          year = getFullYear now;
          month = padStart2 (string_of_nat (getMonth now + 1));
          day = padStart2 (string_of_nat (getDate now));
          hours = padStart2 (string_of_nat (getHours now));
          minutes = padStart2 (string_of_nat (getMinutes now));
          seconds = padStart2 (string_of_nat (getSeconds now))
      in string_of_nat year @ month @ day @ ''-'' @ hours @ minutes @ seconds)"

definition generateOutputFilename :: "('u, 'n) platform \<Rightarrow> string option \<Rightarrow> string" where
  "generateOutputFilename P route_name =
     (let timestamp = getTimestamp P in
      case route_name of
        None \<Rightarrow> ''route-'' @ timestamp @ ''.gpx''
      | Some n \<Rightarrow>
          if n = [] then ''route-'' @ timestamp @ ''.gpx''
          else slugify n @ ''-'' @ timestamp @ ''.gpx'')"

subsection \<open>parseGoogleMapsUrl: the regular expressions\<close>

fun strip_prefix :: "string \<Rightarrow> string \<Rightarrow> string option" where
  "strip_prefix [] s = Some s"
| "strip_prefix (p # ps) [] = None"
| "strip_prefix (p # ps) (x # xs) = (if p = x then strip_prefix ps xs else None)"

text \<open>
  \<open>s.match(/LIT([class]+)/)\<close>: group 1 of the leftmost match, the longest run of class
  characters behind the first \<open>LIT\<close> that has one.
\<close>

fun match_after :: "string \<Rightarrow> (char \<Rightarrow> bool) \<Rightarrow> string \<Rightarrow> string option" where
  "match_after lit cls [] = None"
| "match_after lit cls (x # xs) =
     (case strip_prefix lit (x # xs) of
        None \<Rightarrow> match_after lit cls xs
      | Some rest \<Rightarrow>
          if takeWhile cls rest = [] then match_after lit cls xs
          else Some (takeWhile cls rest))"

text \<open>\<open>/\/maps\/dir\/([^@]+)/\<close> and \<open>/\/data=([^?]+)/\<close>\<close>

definition dirMatch :: "string \<Rightarrow> string option" where
  "dirMatch url = match_after ''/maps/dir/'' (\<lambda>c. c \<noteq> CHR ''@'') url"

definition dataPathMatch :: "string \<Rightarrow> string option" where
  "dataPathMatch url = match_after ''/data='' (\<lambda>c. c \<noteq> CHR ''?'') url"

text \<open>
  \<open>-?\d+\.?\d*\<close> at the head of a string: the text it takes and what is left
  (\<open>opt_char\<close> is an optional single character). Each part
  is greedy, and in all three expressions that use it the next thing to match is a
  character no part can take (\<open>,\<close> or \<open>!\<close>), the end of the string, or nothing, so
  backtracking never finds a match the greedy one misses.
\<close>

definition opt_char :: "char \<Rightarrow> string \<Rightarrow> string \<times> string" where
  "opt_char c s =
     (case s of [] \<Rightarrow> ([], s) | x # r \<Rightarrow> if x = c then ([c], r) else ([], s))"

definition match_number :: "string \<Rightarrow> (string \<times> string) option" where
  "match_number s =
     (let (sign, s1) = opt_char CHR ''-'' s;
          ds = takeWhile is_digit s1;
          s2 = dropWhile is_digit s1;
          (dot, s3) = opt_char CHR ''.'' s2
      in if ds = [] then None
         else Some (sign @ ds @ dot @ takeWhile is_digit s3, dropWhile is_digit s3))"

text \<open>\<open>(-?\d+\.?\d*),(-?\d+\.?\d*)\<close> at the head of a string: groups 1 and 2, and the rest.\<close>

definition match_pair :: "string \<Rightarrow> ((string \<times> string) \<times> string) option" where
  "match_pair s =
     (case match_number s of
        None \<Rightarrow> None
      | Some (a, r) \<Rightarrow>
          (case strip_prefix '','' r of
             None \<Rightarrow> None
           | Some r1 \<Rightarrow>
               (case match_number r1 of
                  None \<Rightarrow> None
                | Some (b, r2) \<Rightarrow> Some ((a, b), r2))))"

text \<open>\<open>loc.match(/^(-?\d+\.?\d*),(-?\d+\.?\d*)$/)\<close>\<close>

definition coordMatch :: "string \<Rightarrow> (string \<times> string) option" where
  "coordMatch loc =
     (case match_pair loc of
        None \<Rightarrow> None
      | Some (groups, rest) \<Rightarrow> if rest = [] then Some groups else None)"

text \<open>\<open>url.match(/@(-?\d+\.?\d*),(-?\d+\.?\d*)/)\<close>: the leftmost match.\<close>

fun placeCoordMatch :: "string \<Rightarrow> (string \<times> string) option" where
  "placeCoordMatch [] = None"
| "placeCoordMatch (x # xs) =
     (if x = CHR ''@'' then
        (case match_pair xs of
           None \<Rightarrow> placeCoordMatch xs
         | Some (groups, rest) \<Rightarrow> Some groups)
      else placeCoordMatch xs)"

text \<open>
  \<open>/!1d(-?\d+\.?\d*)!2d(-?\d+\.?\d*)/\<close> at the head of a string: groups 1 and 2, and the
  rest, where the next \<open>exec\<close> resumes.
\<close>

definition coordRegex_at :: "string \<Rightarrow> ((string \<times> string) \<times> string) option" where
  "coordRegex_at s =
     (case strip_prefix ''!1d'' s of
        None \<Rightarrow> None
      | Some r \<Rightarrow>
          (case match_number r of
             None \<Rightarrow> None
           | Some (g1, r1) \<Rightarrow>
               (case strip_prefix ''!2d'' r1 of
                  None \<Rightarrow> None
                | Some r2 \<Rightarrow>
                    (case match_number r2 of
                       None \<Rightarrow> None
                     | Some (g2, r3) \<Rightarrow> Some ((g1, g2), r3)))))"

lemma strip_prefix_length:
  "strip_prefix p s = Some r \<Longrightarrow> length s = length p + length r"
  by (induction p s rule: strip_prefix.induct) (auto split: if_splits)

lemma opt_char_append: "opt_char c s = (t, r) \<Longrightarrow> s = t @ r"
  by (auto simp: opt_char_def split: list.splits if_splits)

lemma match_number_append:
  assumes "match_number s = Some (a, r)"
  shows "s = a @ r \<and> a \<noteq> []"
proof -
  obtain sign s1 where o1: "opt_char CHR ''-'' s = (sign, s1)"
    by (cases "opt_char CHR ''-'' s")
  obtain dot s3 where o2: "opt_char CHR ''.'' (dropWhile is_digit s1) = (dot, s3)"
    by (cases "opt_char CHR ''.'' (dropWhile is_digit s1)")
  from assms o1 o2 have ne: "takeWhile is_digit s1 \<noteq> []"
    and a: "a = sign @ takeWhile is_digit s1 @ dot @ takeWhile is_digit s3"
    and r: "r = dropWhile is_digit s3"
    by (auto simp: match_number_def Let_def split: if_splits)
  have "s = sign @ s1" using o1 by (rule opt_char_append)
  also have "s1 = takeWhile is_digit s1 @ dropWhile is_digit s1" by simp
  also have "dropWhile is_digit s1 = dot @ s3" using o2 by (rule opt_char_append)
  also have "s3 = takeWhile is_digit s3 @ dropWhile is_digit s3" by simp
  finally have "s = a @ r" unfolding a r by simp
  moreover have "a \<noteq> []" using ne a by simp
  ultimately show ?thesis by simp
qed

lemma match_number_length:
  "match_number s = Some (a, r) \<Longrightarrow> length r < length s"
  by (drule match_number_append) auto

lemma coordRegex_at_length:
  "coordRegex_at s = Some (g, r) \<Longrightarrow> length r < length s"
  by (auto simp: coordRegex_at_def split: option.splits prod.splits
        dest!: strip_prefix_length match_number_length)

text \<open>
  The loop \<open>while ((match = coordRegex.exec(dataParam)) !== null)\<close>: every match from
  left to right, each search resuming where the match before it ended.
\<close>

function exec_all :: "string \<Rightarrow> (string \<times> string) list" where
  "exec_all [] = []"
| "exec_all (x # xs) =
     (case coordRegex_at (x # xs) of
        None \<Rightarrow> exec_all xs
      | Some (groups, rest) \<Rightarrow> groups # exec_all rest)"
  by pat_completeness auto
termination
  by (relation "measure length") (auto dest: coordRegex_at_length)

subsection \<open>parseGoogleMapsUrl\<close>

text \<open>
  \<open>s.split("/")\<close>: the pieces between the separators, empty pieces included; the empty
  string splits into one empty piece.
\<close>

fun split_on :: "char \<Rightarrow> string \<Rightarrow> string list" where
  "split_on sep [] = [[]]"
| "split_on sep (x # xs) =
     (if x = sep then [] # split_on sep xs
      else (case split_on sep xs of
              [] \<Rightarrow> [[x]]
            | piece # pieces \<Rightarrow> (x # piece) # pieces))"

text \<open>
  Format 1 (lines 76 to 96). \<open>locations\<close> are the pieces of group 1 of \<open>dirMatch\<close> that
  are not blank. The loop over them threads the two arrays \<open>waypoints\<close> and
  \<open>locationNames\<close>; a \<open>URIError\<close> of \<open>decodeURIComponent\<close> leaves the function.
\<close>

definition locations :: "string \<Rightarrow> string list" where
  "locations pathPart = filter (\<lambda>s. trim s \<noteq> '''') (split_on CHR ''/'' pathPart)"

fun for_locations ::
  "('u, 'n) platform \<Rightarrow> string list \<Rightarrow> 'n Coordinate list \<times> string list \<Rightarrow>
   error + 'n Coordinate list \<times> string list" where
  "for_locations P [] (wpts, locationNames) = Inr (wpts, locationNames)"
| "for_locations P (loc # locs) (wpts, locationNames) =
     (case coordMatch loc of
        Some (g1, g2) \<Rightarrow>
          for_locations P locs
            (wpts @ [\<lparr>lat = parseFloat P g1, lng = parseFloat P g2, name = None\<rparr>],
             locationNames)
      | None \<Rightarrow>
          (case decodeURIComponent P (replace_char CHR ''+'' '' '' loc) of
             None \<Rightarrow> Inl URIError
           | Some decoded \<Rightarrow> for_locations P locs (wpts, locationNames @ [decoded])))"

definition format1 ::
  "('u, 'n) platform \<Rightarrow> string \<Rightarrow> error + 'n Coordinate list \<times> string list" where
  "format1 P url =
     (case dirMatch url of
        None \<Rightarrow> Inr ([], [])
      | Some pathPart \<Rightarrow> for_locations P (locations pathPart) ([], []))"

text \<open>
  The data parameter (lines 98 to 108): the query parameter \<open>data\<close> when it is there and
  not empty, else the decoded group 1 of \<open>dataPathMatch\<close>, else what the query gave.
\<close>

definition falsy :: "string option \<Rightarrow> bool" where
  "falsy v = (v = None \<or> v = Some [])"

definition dataParam :: "('u, 'n) platform \<Rightarrow> string \<Rightarrow> 'u \<Rightarrow> error + string option" where
  "dataParam P url urlObj =
     (let dp = searchParams_get P urlObj ''data'' in
      if falsy dp then
        (case dataPathMatch url of
           None \<Rightarrow> Inr dp
         | Some g1 \<Rightarrow>
             (case decodeURIComponent P g1 of
                None \<Rightarrow> Inl URIError
              | Some decoded \<Rightarrow> Inr (Some decoded)))
      else Inr dp)"

text \<open>
  The coordinates of the data parameter (lines 117 to 125) and the waypoints made of them
  (lines 133 to 142): the loop over \<open>i\<close> from 0 to \<open>dataCoords.length - 1\<close>.
\<close>

definition dataCoords :: "('u, 'n) platform \<Rightarrow> string \<Rightarrow> 'n Coordinate list" where
  "dataCoords P dp =
     map (\<lambda>(g1, g2). \<lparr>lat = parseFloat P g2, lng = parseFloat P g1, name = None\<rparr>)
       (exec_all dp)"

definition data_name :: "string list \<Rightarrow> nat \<Rightarrow> nat \<Rightarrow> string" where
  "data_name locationNames n i =
     (if i < length locationNames then locationNames ! i
      else if i = 0 then ''Start''
      else if i = n - 1 then ''End''
      else ''Via '' @ string_of_nat i)"

definition data_waypoints :: "string list \<Rightarrow> 'n Coordinate list \<Rightarrow> 'n Coordinate list" where
  "data_waypoints locationNames coords =
     map (\<lambda>i. \<lparr>lat = lat (coords ! i), lng = lng (coords ! i),
                name = Some (data_name locationNames (length coords) i)\<rparr>)
       [0 ..< length coords]"

text \<open>
  Lines 110 to 144: with a data parameter that holds coordinates, the array \<open>waypoints\<close>
  is emptied and refilled. Lines 146 to 154: the \<open>@lat,lng\<close> of the URL is used when the
  array is empty.
\<close>

definition format_data ::
  "('u, 'n) platform \<Rightarrow> string option \<Rightarrow> string list \<Rightarrow> 'n Coordinate list \<Rightarrow>
   'n Coordinate list" where
  "format_data P dp locationNames wpts =
     (case dp of
        None \<Rightarrow> wpts
      | Some d \<Rightarrow>
          if d = [] then wpts
          else if dataCoords P d = [] then wpts
          else data_waypoints locationNames (dataCoords P d))"

definition format2 ::
  "('u, 'n) platform \<Rightarrow> string \<Rightarrow> 'n Coordinate list \<Rightarrow> 'n Coordinate list" where
  "format2 P url wpts =
     (case placeCoordMatch url of
        None \<Rightarrow> wpts
      | Some (g1, g2) \<Rightarrow>
          if wpts = []
          then wpts @ [\<lparr>lat = parseFloat P g1, lng = parseFloat P g2, name = None\<rparr>]
          else wpts)"

text \<open>The candidate waypoints and the location names, before filtering (lines 69 to 154).\<close>

definition candidates ::
  "('u, 'n) platform \<Rightarrow> string \<Rightarrow> error + 'n Coordinate list \<times> string list" where
  "candidates P url =
     (case new_URL P url of
        None \<Rightarrow> Inl TypeError
      | Some urlObj \<Rightarrow>
          (case format1 P url of
             Inl e \<Rightarrow> Inl e
           | Inr (wpts, locationNames) \<Rightarrow>
               (case dataParam P url urlObj of
                  Inl e \<Rightarrow> Inl e
                | Inr dp \<Rightarrow>
                    Inr (format2 P url (format_data P dp locationNames wpts),
                         locationNames))))"

text \<open>Lines 156 to 175: the filter, the error, the route name.\<close>

definition valid_waypoint :: "('u, 'n) platform \<Rightarrow> 'n Coordinate \<Rightarrow> bool" where
  "valid_waypoint P w = (\<not> is_zero P (lat w) \<or> \<not> is_zero P (lng w))"

definition route_name :: "string list \<Rightarrow> 'n Coordinate list \<Rightarrow> string" where
  "route_name locationNames validWaypoints =
     (if length locationNames \<ge> 2 then
        locationNames ! 0 @ '' to '' @ locationNames ! (length locationNames - 1)
      else if length validWaypoints \<ge> 2 then
        or_else (name (validWaypoints ! 0)) ''Start'' @ '' to '' @
        or_else (name (validWaypoints ! (length validWaypoints - 1))) ''End''
      else ''Google Maps Route'')"

definition parseGoogleMapsUrl :: "('u, 'n) platform \<Rightarrow> string \<Rightarrow> error + 'n RouteData" where
  "parseGoogleMapsUrl P url =
     (case candidates P url of
        Inl e \<Rightarrow> Inl e
      | Inr (wpts, locationNames) \<Rightarrow>
          let validWaypoints = filter (valid_waypoint P) wpts in
          if validWaypoints = [] then Inl ExtractionError
          else Inr \<lparr>waypoints = validWaypoints,
                    routeName = route_name locationNames validWaypoints\<rparr>)"

subsection \<open>A reference platform\<close>

text \<open>
  To evaluate the model on concrete URLs the platform record is filled with functions that
  follow the WHATWG URL standard and ECMAScript on a simple class of inputs:
  \<^item> \<open>new URL\<close> accepts a string of the characters U+0020 to U+007E, with no space at
    either end, that starts with \<open>http://\<close> or \<open>https://\<close> and a host made of lower-case
    letters separated by single dots; a browser accepts every such string (and others
    besides). The URL object is kept as its query string, the text between the first
    \<open>?\<close> and the next \<open>#\<close>.
  \<^item> \<open>searchParams.get\<close> splits the query at \<open>&\<close> and each piece at its first \<open>=\<close>,
    turns \<open>+\<close> into a space and decodes every well-formed percent escape; a malformed
    one is left as it stands.
  \<^item> \<open>decodeURIComponent\<close> decodes percent escapes as ECMAScript's \<open>Decode\<close> does,
    throwing on a malformed escape and on bytes that are not UTF-8.
  \<^item> a number is a decimal fraction: a sign, an integer part and fraction digits without
    trailing zeros. \<open>parseFloat\<close> reads a text of the form \<open>-?\d+\.?\d*\<close> exactly.
  The last three agree with a browser while every decoded code point is below 256 (a
  higher one is shown as \<open>?\<close>, and in a query an escaped byte above 127 is kept as it
  is) and while a number has at most 15 significant digits and is 0 or of a magnitude from
  \<open>1e-6\<close> up to \<open>1e21\<close>, where a double holds the decimal and prints it back.
\<close>

definition printable_ascii :: "char \<Rightarrow> bool" where
  "printable_ascii c = (32 \<le> (of_char c :: nat) \<and> (of_char c :: nat) \<le> 126)"

definition is_lower :: "char \<Rightarrow> bool" where
  "is_lower c = (c \<in> set ''abcdefghijklmnopqrstuvwxyz'')"

definition valid_host :: "string \<Rightarrow> bool" where
  "valid_host h = list_all (\<lambda>l. l \<noteq> [] \<and> list_all is_lower l) (split_on CHR ''.'' h)"

definition url_query :: "string \<Rightarrow> string" where
  "url_query url =
     (case dropWhile (\<lambda>c. c \<noteq> CHR ''?'') (takeWhile (\<lambda>c. c \<noteq> CHR ''#'') url) of
        [] \<Rightarrow> []
      | q # query \<Rightarrow> query)"

definition ref_new_URL :: "string \<Rightarrow> string option" where
  "ref_new_URL url =
     (let after_scheme =
            (case strip_prefix ''https://'' url of
               Some r \<Rightarrow> Some r
             | None \<Rightarrow> strip_prefix ''http://'' url)
      in case after_scheme of
           None \<Rightarrow> None
         | Some r \<Rightarrow>
             if list_all printable_ascii url \<and> hd url \<noteq> CHR '' '' \<and> last url \<noteq> CHR '' '' \<and>
                valid_host (takeWhile (\<lambda>c. c \<notin> set ''/?#'') r)
             then Some (url_query url) else None)"

definition hex_val :: "char \<Rightarrow> nat option" where
  "hex_val c =
     (let n = of_char c :: nat in
      if 48 \<le> n \<and> n \<le> 57 then Some (n - 48)
      else if 65 \<le> n \<and> n \<le> 70 then Some (n - 55)
      else if 97 \<le> n \<and> n \<le> 102 then Some (n - 87)
      else None)"

text \<open>\<open>%XX\<close> at the head of a string: the byte and the rest.\<close>

fun pct_byte :: "string \<Rightarrow> (nat \<times> string) option" where
  "pct_byte (p # h1 # h2 # rest) =
     (if p = CHR ''%'' then
        (case (hex_val h1, hex_val h2) of
           (Some a, Some b) \<Rightarrow> Some (16 * a + b, rest)
         | _ \<Rightarrow> None)
      else None)"
| "pct_byte _ = None"

text \<open>The lenient decoding of a query: \<open>+\<close> is a space, a malformed \<open>%\<close> stays.\<close>

fun form_decode :: "string \<Rightarrow> string" where
  "form_decode [] = []"
| "form_decode (c # cs) =
     (if c = CHR ''+'' then CHR '' '' # form_decode cs
      else if c = CHR ''%'' then
        (case cs of
           h1 # h2 # rest \<Rightarrow>
             (case (hex_val h1, hex_val h2) of
                (Some a, Some b) \<Rightarrow> char_of (16 * a + b) # form_decode rest
              | _ \<Rightarrow> c # form_decode cs)
         | _ \<Rightarrow> c # form_decode cs)
      else c # form_decode cs)"

fun first_param :: "string \<Rightarrow> string list \<Rightarrow> string option" where
  "first_param key [] = None"
| "first_param key (piece # pieces) =
     (if piece \<noteq> [] \<and> form_decode (takeWhile (\<lambda>c. c \<noteq> CHR ''='') piece) = key
      then Some (form_decode (drop 1 (dropWhile (\<lambda>c. c \<noteq> CHR ''='') piece)))
      else first_param key pieces)"

definition ref_searchParams_get :: "string \<Rightarrow> string \<Rightarrow> string option" where
  "ref_searchParams_get query key = first_param key (split_on CHR ''&'' query)"

text \<open>
  \<open>Decode\<close> of ECMAScript: a lead byte announces 2, 3 or 4 bytes; the following bytes
  are escapes of the form \<open>10xxxxxx\<close>.
\<close>

fun continuation :: "nat \<Rightarrow> string \<Rightarrow> (nat list \<times> string) option" where
  "continuation 0 s = Some ([], s)"
| "continuation (Suc k) s =
     (case pct_byte s of
        None \<Rightarrow> None
      | Some (b, rest) \<Rightarrow>
          if 128 \<le> b \<and> b < 192 then
            (case continuation k rest of
               None \<Rightarrow> None
             | Some (bs, rest') \<Rightarrow> Some (b # bs, rest'))
          else None)"

text \<open>
  The bytes behind a lead byte \<open>b\<close>, each already known to be of the form \<open>10xxxxxx\<close>:
  the checks on the first of them exclude the over-long forms, the surrogates and the code
  points above U+10FFFF. Only a two-byte sequence with lead byte \<open>C2\<close> or \<open>C3\<close> gives
  a code point below 256.
\<close>

definition well_formed_utf8 :: "nat \<Rightarrow> nat list \<Rightarrow> bool" where
  "well_formed_utf8 b bs =
     (case bs of
        [b2] \<Rightarrow> 194 \<le> b
      | [b2, b3] \<Rightarrow> (if b = 224 then 160 \<le> b2 else if b = 237 then b2 < 160 else True)
      | [b2, b3, b4] \<Rightarrow>
          (if b = 240 then 144 \<le> b2 else if b = 244 then b2 < 144 else b < 244)
      | _ \<Rightarrow> False)"

definition utf8_char :: "nat \<Rightarrow> nat list \<Rightarrow> char option" where
  "utf8_char b bs =
     (if \<not> well_formed_utf8 b bs then None
      else if length bs = 1 \<and> b < 196 then Some (char_of (64 * (b mod 32) + hd bs mod 64))
      else Some CHR ''?'')"

definition byte_count :: "nat \<Rightarrow> nat" where
  "byte_count b =
     (if 192 \<le> b \<and> b < 224 then 2
      else if 224 \<le> b \<and> b < 240 then 3
      else if 240 \<le> b \<and> b < 248 then 4
      else 0)"

lemma pct_byte_length: "pct_byte s = Some (b, r) \<Longrightarrow> length r < length s"
  by (induction s rule: pct_byte.induct) (auto split: if_splits option.splits)

lemma continuation_length: "continuation k s = Some (bs, r) \<Longrightarrow> length r \<le> length s"
proof (induction k arbitrary: s bs r)
  case 0
  then show ?case by simp
next
  case (Suc k)
  then show ?case
    by (fastforce split: option.splits if_splits prod.splits dest: pct_byte_length)
qed

function ref_decodeURIComponent :: "string \<Rightarrow> string option" where
  "ref_decodeURIComponent [] = Some []"
| "ref_decodeURIComponent (c # cs) =
     (if c \<noteq> CHR ''%'' then map_option ((#) c) (ref_decodeURIComponent cs)
      else
        (case pct_byte (c # cs) of
           None \<Rightarrow> None
         | Some (b, rest) \<Rightarrow>
             if b < 128 then map_option ((#) (char_of b)) (ref_decodeURIComponent rest)
             else if byte_count b = 0 then None
             else
               (case continuation (byte_count b - 1) rest of
                  None \<Rightarrow> None
                | Some (bs, rest') \<Rightarrow>
                    (case utf8_char b bs of
                       None \<Rightarrow> None
                     | Some ch \<Rightarrow> map_option ((#) ch) (ref_decodeURIComponent rest')))))"
  by pat_completeness auto
termination
proof (relation "measure length", goal_cases)
  case 1
  show ?case by simp
next
  case (2 c cs)
  then show ?case by simp
next
  case (3 c cs x2 b rest)
  then show ?case by (auto dest: pct_byte_length)
next
  case (4 c cs x2 b rest x2a bs rest' ch)
  then have "length rest' \<le> length rest" "length rest < length (c # cs)"
    by (auto dest: pct_byte_length continuation_length)
  then show ?case by simp
qed

text \<open>Decimal numbers.\<close>

datatype decimal = Decimal (negative: bool) (int_part: nat) (fraction: string)

definition digit_val :: "char \<Rightarrow> nat" where
  "digit_val c = of_char c - 48"

definition nat_of_digits :: "string \<Rightarrow> nat" where
  "nat_of_digits ds = foldl (\<lambda>acc c. 10 * acc + digit_val c) 0 ds"

definition drop_trailing_zeros :: "string \<Rightarrow> string" where
  "drop_trailing_zeros ds = rev (dropWhile (\<lambda>c. c = CHR ''0'') (rev ds))"

definition ref_parseFloat :: "string \<Rightarrow> decimal" where
  "ref_parseFloat s =
     (let (sign, s1) = opt_char CHR ''-'' s;
          ip = nat_of_digits (takeWhile is_digit s1);
          (dot, s3) = opt_char CHR ''.'' (dropWhile is_digit s1);
          fr = drop_trailing_zeros (takeWhile is_digit s3)
      in Decimal (sign \<noteq> [] \<and> (ip \<noteq> 0 \<or> fr \<noteq> [])) ip fr)"

definition ref_is_zero :: "decimal \<Rightarrow> bool" where
  "ref_is_zero d = (int_part d = 0 \<and> fraction d = [])"

definition ref_number_to_string :: "decimal \<Rightarrow> string" where
  "ref_number_to_string d =
     (if negative d then ''-'' else '''') @ string_of_nat (int_part d) @
     (if fraction d = [] then '''' else ''.'' @ fraction d)"

definition ref_platform :: "(string, decimal) platform" where
  "ref_platform =
     \<lparr>new_URL = ref_new_URL,
      searchParams_get = ref_searchParams_get,
      decodeURIComponent = ref_decodeURIComponent,
      parseFloat = ref_parseFloat,
      is_zero = ref_is_zero,
      number_to_string = ref_number_to_string,
      new_Date = \<lparr>getFullYear = 2024, getMonth = 0, getDate = 15,
                  getHours = 9, getMinutes = 5, getSeconds = 30\<rparr>\<rparr>"

subsection \<open>A reader of XML documents\<close>

text \<open>
  The specification speaks of re-parsing the document with a conformant XML reader. The
  reader is no code of the repository; it is modelled here from the XML 1.0
  recommendation, for documents made of an optional XML declaration, elements with
  attributes, character data and the five predefined entity references. It rejects what
  the recommendation forbids there (a character that is no \<open>Char\<close>, \<open><\<close> or a bare
  \<open>&\<close> in character data or in an attribute value, \<open>]]>\<close> in character data, a
  repeated attribute, tags that do not match, anything but white space around the root
  element), normalises line ends and attribute values, and keeps all character data,
  white space included. Documents with comments, processing instructions, CDATA
  sections, a document type declaration or character references are rejected as well;
  the documents \<open>generateGpx\<close> writes have none of these.
\<close>

datatype xml = Element string "(string \<times> string) list" "xml list" | Text string

datatype token =
    Start_tag string "(string \<times> string) list"
  | End_tag string
  | Empty_tag string "(string \<times> string) list"
  | Char_data string

definition xml_char :: "char \<Rightarrow> bool" where
  "xml_char c =
     (let n = of_char c :: nat in n = 9 \<or> n = 10 \<or> n = 13 \<or> 32 \<le> n)"

definition xml_space :: "char \<Rightarrow> bool" where
  "xml_space c = (c \<in> set [CHR '' '', CHR 0x09, CHR 0x0D, CHR 0x0A])"

definition name_start_char :: "char \<Rightarrow> bool" where
  "name_start_char c =
     (let n = of_char c :: nat in
      c = CHR '':'' \<or> c = CHR ''_'' \<or> (65 \<le> n \<and> n \<le> 90) \<or> (97 \<le> n \<and> n \<le> 122) \<or>
      (192 \<le> n \<and> n \<le> 214) \<or> (216 \<le> n \<and> n \<le> 246) \<or> 248 \<le> n)"

definition name_char :: "char \<Rightarrow> bool" where
  "name_char c =
     (let n = of_char c :: nat in
      name_start_char c \<or> c = CHR ''-'' \<or> c = CHR ''.'' \<or> (48 \<le> n \<and> n \<le> 57) \<or> n = 183)"

text \<open>Line ends: \<open>CR LF\<close> and a lone \<open>CR\<close> are read as \<open>LF\<close>.\<close>

fun normalize_eol :: "string \<Rightarrow> string" where
  "normalize_eol [] = []"
| "normalize_eol [c] = [if c = CHR 0x0D then CHR 0x0A else c]"
| "normalize_eol (c # d # s) =
     (if c = CHR 0x0D then
        (if d = CHR 0x0A then CHR 0x0A # normalize_eol s
         else CHR 0x0A # normalize_eol (d # s))
      else c # normalize_eol (d # s))"

text \<open>References: what stands behind an \<open>&\<close>, and a text with its references expanded.\<close>

definition entities :: "(string \<times> char) list" where
  "entities =
     [(''amp;'', CHR ''&''), (''lt;'', CHR ''<''), (''gt;'', CHR ''>''),
      (''quot;'', CHR 0x22), (''apos;'', CHR 0x27)]"

fun reference :: "(string \<times> char) list \<Rightarrow> string \<Rightarrow> (char \<times> string) option" where
  "reference [] s = None"
| "reference ((ent, c) # es) s =
     (case strip_prefix ent s of
        Some rest \<Rightarrow> Some (c, rest)
      | None \<Rightarrow> reference es s)"

lemma reference_length: "reference es s = Some (c, r) \<Longrightarrow> length r \<le> length s"
  by (induction es s rule: reference.induct)
     (auto split: option.splits dest: strip_prefix_length)

function expand_references :: "string \<Rightarrow> string option" where
  "expand_references [] = Some []"
| "expand_references (c # s) =
     (if c = CHR ''&'' then
        (case reference entities s of
           None \<Rightarrow> None
         | Some (ch, rest) \<Rightarrow> map_option ((#) ch) (expand_references rest))
      else map_option ((#) c) (expand_references s))"
  by pat_completeness auto
termination
  by (relation "measure length") (auto dest: reference_length)

text \<open>\<open>]]>\<close> must not occur in character data.\<close>

fun has_cdata_end :: "string \<Rightarrow> bool" where
  "has_cdata_end (a # b # c # s) =
     ((a = CHR '']'' \<and> b = CHR '']'' \<and> c = CHR ''>'') \<or> has_cdata_end (b # c # s))"
| "has_cdata_end _ = False"

text \<open>Names, attributes, tags.\<close>

definition parse_name :: "string \<Rightarrow> (string \<times> string) option" where
  "parse_name s =
     (case s of
        [] \<Rightarrow> None
      | c # r \<Rightarrow>
          if name_start_char c then Some (takeWhile name_char s, dropWhile name_char s)
          else None)"

definition skip_space :: "string \<Rightarrow> string" where
  "skip_space s = dropWhile xml_space s"

text \<open>
  An attribute value between quotes of one kind; white space in it is read as a space.
\<close>

definition parse_att_value :: "string \<Rightarrow> (string \<times> string) option" where
  "parse_att_value s =
     (case s of
        [] \<Rightarrow> None
      | q # r \<Rightarrow>
          if q = CHR 0x22 \<or> q = CHR 0x27 then
            (let v = takeWhile (\<lambda>c. c \<noteq> q) r in
             case dropWhile (\<lambda>c. c \<noteq> q) r of
               [] \<Rightarrow> None
             | q' # rest \<Rightarrow>
                 if CHR ''<'' \<in> set v then None
                 else
                   (case expand_references (map (\<lambda>c. if xml_space c then CHR '' '' else c) v) of
                      None \<Rightarrow> None
                    | Some v' \<Rightarrow> Some (v', rest)))
          else None)"

definition parse_attribute :: "string \<Rightarrow> ((string \<times> string) \<times> string) option" where
  "parse_attribute s =
     (case parse_name s of
        None \<Rightarrow> None
      | Some (n, r) \<Rightarrow>
          (case skip_space r of
             [] \<Rightarrow> None
           | e # r1 \<Rightarrow>
               if e = CHR ''='' then
                 (case parse_att_value (skip_space r1) of
                    None \<Rightarrow> None
                  | Some (v, r2) \<Rightarrow> Some ((n, v), r2))
               else None))"

lemma parse_name_length: "parse_name s = Some (n, r) \<Longrightarrow> length r \<le> length s"
proof -
  have "length (dropWhile name_char s) \<le> length s" by (rule length_dropWhile_le)
  moreover assume "parse_name s = Some (n, r)"
  ultimately show ?thesis
    by (cases s) (auto simp: parse_name_def simp del: dropWhile.simps split: if_splits)
qed

lemma skip_space_length: "length (skip_space s) \<le> length s"
  by (simp add: skip_space_def length_dropWhile_le)

lemma parse_att_value_length: "parse_att_value s = Some (v, r) \<Longrightarrow> length r < length s"
proof -
  have "length rest < length t" if "dropWhile P t = q # rest" for P and t :: string and q rest
    using length_dropWhile_le [of P t] that by simp
  then show "parse_att_value s = Some (v, r) \<Longrightarrow> length r < length s"
    by (fastforce simp: parse_att_value_def Let_def split: list.splits if_splits option.splits)
qed

lemma parse_attribute_length:
  assumes "parse_attribute s = Some (a, r)"
  shows "length r < length s"
proof -
  from assms obtain n r0 e r1 v where
    n: "parse_name s = Some (n, r0)" and e: "skip_space r0 = e # r1" and
    v: "parse_att_value (skip_space r1) = Some (v, r)"
    by (auto simp: parse_attribute_def split: option.splits list.splits if_splits)
  have "length r < length (skip_space r1)" using v by (rule parse_att_value_length)
  also have "\<dots> \<le> length r1" by (rule skip_space_length)
  also have "\<dots> < length (skip_space r0)" using e by simp
  also have "\<dots> \<le> length r0" by (rule skip_space_length)
  also have "\<dots> \<le> length s" using n by (rule parse_name_length)
  finally show ?thesis .
qed

text \<open>
  The attributes behind a tag name, each after white space, up to the \<open>></\<close>, \<open>/\<close> or
  \<open>?\<close> that ends the tag.
\<close>

function parse_attributes :: "string \<Rightarrow> ((string \<times> string) list \<times> string) option" where
  "parse_attributes s =
     (case skip_space s of
        [] \<Rightarrow> None
      | c # r \<Rightarrow>
          if c \<in> set ''>/?'' then Some ([], c # r)
          else if length (c # r) = length s then None
          else
            (case parse_attribute (c # r) of
               None \<Rightarrow> None
             | Some (a, rest) \<Rightarrow>
                 (case parse_attributes rest of
                    None \<Rightarrow> None
                  | Some (as, rest') \<Rightarrow> Some (a # as, rest'))))"
  by pat_completeness auto
termination
proof (relation "measure length", goal_cases)
  case 1
  show ?case by simp
next
  case (2 s c r x2 a rest)
  then have "length rest < length (c # r)" by (auto dest: parse_attribute_length)
  moreover have "length (c # r) \<le> length s"
    using 2(1) skip_space_length [of s] by simp
  ultimately show ?case by simp
qed

declare parse_attributes.simps [simp del]

text \<open>A name, and an attribute value that is written as it is read.\<close>

definition is_name :: "string \<Rightarrow> bool" where
  "is_name n = (n \<noteq> [] \<and> name_start_char (hd n) \<and> list_all name_char n)"

definition plain_value :: "string \<Rightarrow> bool" where
  "plain_value v =
     list_all (\<lambda>c. c \<notin> set [CHR 0x22, CHR ''<'', CHR ''&'', CHR 0x09, CHR 0x0D, CHR 0x0A]) v"

definition parse_tag :: "string \<Rightarrow> (token \<times> string) option" where
  "parse_tag s =
     (case strip_prefix ''</'' s of
        Some r \<Rightarrow>
          (case parse_name r of
             None \<Rightarrow> None
           | Some (n, r1) \<Rightarrow>
               (case strip_prefix ''>'' (skip_space r1) of
                  None \<Rightarrow> None
                | Some rest \<Rightarrow> Some (End_tag n, rest)))
      | None \<Rightarrow>
          (case strip_prefix ''<'' s of
             None \<Rightarrow> None
           | Some r \<Rightarrow>
               (case parse_name r of
                  None \<Rightarrow> None
                | Some (n, r1) \<Rightarrow>
                    (case parse_attributes r1 of
                       None \<Rightarrow> None
                     | Some (as, r2) \<Rightarrow>
                         if \<not> distinct (map fst as) then None
                         else
                           (case strip_prefix ''>'' r2 of
                              Some rest \<Rightarrow> Some (Start_tag n as, rest)
                            | None \<Rightarrow>
                                (case strip_prefix ''/>'' r2 of
                                   Some rest \<Rightarrow> Some (Empty_tag n as, rest)
                                 | None \<Rightarrow> None))))))"

lemma parse_attributes_length:
  "parse_attributes s = Some (as, r) \<Longrightarrow> length r \<le> length s"
proof (induction s arbitrary: as r rule: parse_attributes.induct)
  case (1 s)
  show ?case
  proof (cases "skip_space s")
    case Nil
    with "1.prems" show ?thesis by (simp add: parse_attributes.simps [of s])
  next
    case (Cons c t)
    have le: "length (c # t) \<le> length s" using skip_space_length [of s] Cons by simp
    show ?thesis
    proof (cases "c \<in> set ''>/?''")
      case True
      with "1.prems" Cons have "r = c # t" by (simp add: parse_attributes.simps [of s])
      with le show ?thesis by simp
    next
      case False
      with "1.prems" Cons obtain a rest as' where
        ne: "length (c # t) \<noteq> length s" and
        a: "parse_attribute (c # t) = Some (a, rest)" and
        r: "parse_attributes rest = Some (as', r)"
        by (auto simp: parse_attributes.simps [of s] split: if_splits option.splits)
      have "length r \<le> length rest"
        using "1.IH" [OF Cons False ne a refl r] .
      moreover have "length rest < length (c # t)" using a by (rule parse_attribute_length)
      ultimately show ?thesis using le by simp
    qed
  qed
qed

lemma parse_tag_length:
  assumes "parse_tag s = Some (t, r)"
  shows "length r < length s"
proof (cases "strip_prefix ''</'' s")
  case (Some r0)
  with assms obtain n r1 where n: "parse_name r0 = Some (n, r1)"
    and e: "strip_prefix ''>'' (skip_space r1) = Some r"
    by (auto simp: parse_tag_def split: option.splits)
  have "length r < length (skip_space r1)" using strip_prefix_length [OF e] by simp
  also have "\<dots> \<le> length r1" by (rule skip_space_length)
  also have "\<dots> \<le> length r0" using n by (rule parse_name_length)
  also have "\<dots> < length s" using strip_prefix_length [OF Some] by simp
  finally show ?thesis .
next
  case None
  with assms obtain r0 n r1 as r2 where o: "strip_prefix ''<'' s = Some r0"
    and n: "parse_name r0 = Some (n, r1)" and a: "parse_attributes r1 = Some (as, r2)"
    and e: "strip_prefix ''>'' r2 = Some r \<or> strip_prefix ''/>'' r2 = Some r"
    by (auto simp: parse_tag_def split: option.splits if_splits)
  have "length r < length r2" using e by (auto dest: strip_prefix_length)
  also have "\<dots> \<le> length r1" using a by (rule parse_attributes_length)
  also have "\<dots> \<le> length r0" using n by (rule parse_name_length)
  also have "\<dots> < length s" using strip_prefix_length [OF o] by simp
  finally show ?thesis .
qed

text \<open>
  The text of a document as tags and character data: at a \<open><\<close> a tag, elsewhere
  character data up to the next \<open><\<close>.
\<close>

function tokens :: "string \<Rightarrow> token list option" where
  "tokens [] = Some []"
| "tokens (c # s) =
     (if c = CHR ''<'' then
        (case parse_tag (c # s) of
           None \<Rightarrow> None
         | Some (t, rest) \<Rightarrow> map_option ((#) t) (tokens rest))
      else if has_cdata_end (takeWhile (\<lambda>x. x \<noteq> CHR ''<'') (c # s)) then None
      else
        (case expand_references (takeWhile (\<lambda>x. x \<noteq> CHR ''<'') (c # s)) of
           None \<Rightarrow> None
         | Some t \<Rightarrow>
             map_option ((#) (Char_data t)) (tokens (dropWhile (\<lambda>x. x \<noteq> CHR ''<'') s))))"
  by pat_completeness auto
termination
  by (relation "measure length")
     (auto dest: parse_tag_length simp: le_imp_less_Suc length_dropWhile_le)

declare tokens.simps [simp del]

text \<open>
  From tags to trees. The stack holds the elements that are open, innermost first, each
  with the children read so far, last first; its bottom frame collects the items of the
  document itself.
\<close>

type_synonym frame = "string \<times> (string \<times> string) list \<times> xml list"

fun add_child :: "xml \<Rightarrow> frame list \<Rightarrow> frame list" where
  "add_child x [] = []"
| "add_child x ((n, as, children) # stack) = (n, as, x # children) # stack"

fun build :: "token list \<Rightarrow> frame list \<Rightarrow> xml list option" where
  "build [] stack =
     (case stack of
        [(n, as, children)] \<Rightarrow> Some (rev children)
      | _ \<Rightarrow> None)"
| "build (Char_data t # ts) stack = build ts (add_child (Text t) stack)"
| "build (Start_tag n as # ts) stack = build ts ((n, as, []) # stack)"
| "build (Empty_tag n as # ts) stack = build ts (add_child (Element n as []) stack)"
| "build (End_tag n # ts) stack =
     (case stack of
        (m, as, children) # outer # stack' \<Rightarrow>
          if n = m then build ts (add_child (Element m as (rev children)) (outer # stack'))
          else None
      | _ \<Rightarrow> None)"

text \<open>A document is one element, with nothing but white space before and behind it.\<close>

fun blank_text :: "xml \<Rightarrow> bool" where
  "blank_text (Text t) = list_all xml_space t"
| "blank_text (Element n as children) = False"

definition document_element :: "xml list \<Rightarrow> xml option" where
  "document_element items =
     (case filter (\<lambda>x. \<not> blank_text x) items of
        [Element n as children] \<Rightarrow> Some (Element n as children)
      | _ \<Rightarrow> None)"

text \<open>
  The XML declaration: \<open>version\<close>, then optionally \<open>encoding\<close>, then optionally
  \<open>standalone\<close>.
\<close>

definition skip_xml_declaration :: "string \<Rightarrow> string option" where
  "skip_xml_declaration s =
     (case strip_prefix ''<?xml'' s of
        None \<Rightarrow> Some s
      | Some r \<Rightarrow>
          (case parse_attributes r of
             None \<Rightarrow> None
           | Some (as, r1) \<Rightarrow>
               if map fst as \<in> set [[''version''], [''version'', ''encoding''],
                                    [''version'', ''standalone''],
                                    [''version'', ''encoding'', ''standalone'']]
               then strip_prefix ''?>'' r1
               else None))"

definition read_xml :: "string \<Rightarrow> xml option" where
  "read_xml doc =
     (if \<not> list_all xml_char doc then None
      else
        (case skip_xml_declaration (normalize_eol doc) of
           None \<Rightarrow> None
         | Some body \<Rightarrow>
             (case tokens body of
                None \<Rightarrow> None
              | Some ts \<Rightarrow>
                  (case build ts [([], [], [])] of
                     None \<Rightarrow> None
                   | Some items \<Rightarrow> document_element items))))"

text \<open>
  What a GPX consumer reads off the tree: the track points of the track segments of the
  tracks, each as its \<open>lat\<close> attribute, its \<open>lon\<close> attribute and the text of its
  \<open>name\<close> child.
\<close>

fun child_elements :: "string \<Rightarrow> xml \<Rightarrow> xml list" where
  "child_elements tag (Text t) = []"
| "child_elements tag (Element n as children) =
     filter (\<lambda>x. case x of Element m bs cs \<Rightarrow> m = tag | Text t \<Rightarrow> False) children"

fun text_content :: "xml \<Rightarrow> string" where
  "text_content (Text t) = t"
| "text_content (Element n as children) =
     concat (map (\<lambda>x. case x of Text t \<Rightarrow> t | Element m bs cs \<Rightarrow> []) children)"

fun attribute :: "string \<Rightarrow> xml \<Rightarrow> string option" where
  "attribute key (Text t) = None"
| "attribute key (Element n as children) = map_of as key"

definition trkpt_triple :: "xml \<Rightarrow> (string \<times> string \<times> string) option" where
  "trkpt_triple pt =
     (case (attribute ''lat'' pt, attribute ''lon'' pt, child_elements ''name'' pt) of
        (Some la, Some lo, [nm]) \<Rightarrow> Some (la, lo, text_content nm)
      | _ \<Rightarrow> None)"

fun all_some :: "'a option list \<Rightarrow> 'a list option" where
  "all_some [] = Some []"
| "all_some (None # xs) = None"
| "all_some (Some x # xs) = map_option ((#) x) (all_some xs)"

definition gpx_track_points :: "xml \<Rightarrow> (string \<times> string \<times> string) list option" where
  "gpx_track_points root =
     (case root of
        Text t \<Rightarrow> None
      | Element n as children \<Rightarrow>
          if n = ''gpx'' then
            all_some (map trkpt_triple
              (concat (map (child_elements ''trkpt'')
                (concat (map (child_elements ''trkseg'') (child_elements ''trk'' root))))))
          else None)"

text \<open>
  The tree of a GPX document as the specification lays it out: the root \<open>gpx\<close> with its
  version, creator and schema attributes, one \<open>trk\<close> with its \<open>name\<close> and one
  \<open>trkseg\<close>, and in it one \<open>trkpt\<close> per point, with the attributes \<open>lat\<close> and \<open>lon\<close>
  and a \<open>name\<close> child. The white space between the elements is the indentation.
\<close>

definition text_nodes :: "string \<Rightarrow> xml list" where
  "text_nodes t = (if t = [] then [] else [Text t])"

definition trkpt_tree :: "string \<times> string \<times> string \<Rightarrow> xml list" where
  "trkpt_tree pt =
     (case pt of (la, lo, nm) \<Rightarrow>
        [Text ''\<newline>      '',
         Element ''trkpt'' [(''lat'', la), (''lon'', lo)]
           [Text ''\<newline>        '', Element ''name'' [] (text_nodes nm),
            Text ''\<newline>      '']])"

definition gpx_tree :: "string \<Rightarrow> (string \<times> string \<times> string) list \<Rightarrow> xml" where
  "gpx_tree track_name pts =
     Element ''gpx''
       [(''version'', ''1.1''), (''creator'', ''gmaps-gpx''),
        (''xmlns'', ''http://www.topografix.com/GPX/1/1''),
        (''xmlns:xsi'', ''http://www.w3.org/2001/XMLSchema-instance''),
        (''xsi:schemaLocation'',
         ''http://www.topografix.com/GPX/1/1 http://www.topografix.com/GPX/1/1/gpx.xsd'')]
       [Text ''\<newline>  '',
        Element ''trk'' []
          [Text ''\<newline>    '', Element ''name'' [] (text_nodes track_name),
           Text ''\<newline>    '',
           Element ''trkseg'' [] (concat (map trkpt_tree pts) @ [Text ''\<newline>    '']),
           Text ''\<newline>  ''],
        Text ''\<newline>'']"

text \<open>
  The characters JavaScript writes a number with (digits, point, signs, exponent mark and
  the letters of \<open>Infinity\<close> and \<open>NaN\<close>), and the characters a name can hold for an XML
  document to carry it unchanged: those XML allows, without the carriage return, which
  a reader turns into a line feed.
\<close>

definition number_char :: "char \<Rightarrow> bool" where
  "number_char c = (c \<in> set ''0123456789.-+eInfinityNaN'')"

definition xml_text_char :: "char \<Rightarrow> bool" where
  "xml_text_char c = (xml_char c \<and> c \<noteq> CHR 0x0D)"

text \<open>The points of a route as the document shows them.\<close>

definition shown_points ::
  "('u, 'n) platform \<Rightarrow> 'n Coordinate list \<Rightarrow> (string \<times> string \<times> string) list" where
  "shown_points P wps =
     map (\<lambda>(index, wp).
            (number_to_string P (lat wp), number_to_string P (lng wp),
             or_else (name wp) (''Waypoint '' @ string_of_nat (index + 1))))
       (zip [0 ..< length wps] wps)"

text \<open>Tokens put in front of the tokens of the rest, when the rest has any.\<close>

definition prepend :: "'a list \<Rightarrow> 'a list option \<Rightarrow> 'a list option" where
  "prepend xs rest = map_option ((@) xs) rest"

text \<open>A tree written as tags, the inverse of \<open>build\<close>.\<close>

primrec xml_tokens :: "xml \<Rightarrow> token list" where
  "xml_tokens (Text t) = [Char_data t]"
| "xml_tokens (Element n as children) =
     Start_tag n as # concat (map xml_tokens children) @ [End_tag n]"


section \<open>Properties\<close>

subsection \<open>The specification's wording of escaping and of the slug\<close>

text \<open>
  The five reserved characters of XML and the entity each is written as; every other
  character stands for itself.
\<close>

definition xml_entity :: "char \<Rightarrow> string" where
  "xml_entity c =
     (if c = CHR ''&'' then ''&amp;''
      else if c = CHR ''<'' then ''&lt;''
      else if c = CHR ''>'' then ''&gt;''
      else if c = CHR 0x22 then ''&quot;''
      else if c = CHR 0x27 then ''&apos;''
      else [c])"

text \<open>
  The slug in the specification's words: strip what is not a word character, white space
  or a hyphen; turn every run of white space, underscores and hyphens into one hyphen
  (a separator followed by a separator vanishes, the last of a run becomes the hyphen);
  trim hyphens at both ends.
\<close>

definition is_separator :: "char \<Rightarrow> bool" where
  "is_separator c = (is_space c \<or> c = CHR ''_'' \<or> c = CHR ''-'')"

fun collapse_runs :: "string \<Rightarrow> string" where
  "collapse_runs [] = []"
| "collapse_runs [x] = [if is_separator x then CHR ''-'' else x]"
| "collapse_runs (x # y # zs) =
     (if is_separator x \<and> is_separator y then collapse_runs (y # zs)
      else (if is_separator x then CHR ''-'' else x) # collapse_runs (y # zs))"

definition trim_hyphens :: "string \<Rightarrow> string" where
  "trim_hyphens s =
     rev (dropWhile (\<lambda>c. c = CHR ''-'') (rev (dropWhile (\<lambda>c. c = CHR ''-'') s)))"

definition slugify_spec :: "string \<Rightarrow> string" where
  "slugify_spec text =
     trim_hyphens
       (collapse_runs
         (filter (\<lambda>c. is_word c \<or> is_space c \<or> c = CHR ''-'')
           (trim (toLowerCase text))))"











subsection \<open>escapeXml\<close>

lemma replace_each_append:
  "replace_each cls rep (a @ b) = replace_each cls rep a @ replace_each cls rep b"
  by (induction a) auto

lemma escapeXml_Cons: "escapeXml (x # xs) = xml_entity x @ escapeXml xs"
  by (simp add: escapeXml_def replace_char_def xml_entity_def replace_each_append)

lemma escapeXml_entities: "escapeXml s = concat (map xml_entity s)"
proof (induction s)
  case Nil
  show ?case by (simp add: escapeXml_def replace_char_def)
next
  case (Cons x xs)
  then show ?case by (simp add: escapeXml_Cons)
qed

lemma escapeXml_append: "escapeXml (a @ b) = escapeXml a @ escapeXml b"
  by (simp add: escapeXml_entities)

text \<open>The loop of \<open>generateGpx\<close> in closed form.\<close>

lemma forEach_trkpt_concat:
  "forEach_trkpt P gpx i wps =
     gpx @ concat (map (\<lambda>(k, wp). gpx_trkpt P k wp) (zip [i ..< i + length wps] wps))"
proof (induction wps arbitrary: gpx i)
  case Nil
  show ?case by simp
next
  case (Cons wp wps)
  have "[i ..< i + length (wp # wps)] = i # [Suc i ..< Suc i + length wps]"
    by (simp add: upt_rec)
  then show ?case using Cons.IH [of "gpx @ gpx_trkpt P i wp" "Suc i"] by simp
qed

subsection \<open>slugify\<close>

lemma replace_each_empty_filter: "replace_each cls [] s = filter (\<lambda>c. \<not> cls c) s"
  by (induction s) auto

lemma collapse_runs_separator:
  "is_separator x \<Longrightarrow>
     collapse_runs (x # xs) = CHR ''-'' # collapse_runs (dropWhile is_separator xs)"
proof (induction xs arbitrary: x)
  case Nil
  then show ?case by simp
next
  case (Cons y ys)
  show ?case
  proof (cases "is_separator y")
    case True
    then show ?thesis using Cons.prems Cons.IH [of y] by simp
  next
    case False
    then show ?thesis using Cons.prems by simp
  qed
qed

lemma collapse_runs_other:
  "\<not> is_separator x \<Longrightarrow> collapse_runs (x # xs) = x # collapse_runs xs"
  by (cases xs) auto

lemma replace_runs_collapse: "replace_runs is_separator ''-'' s = collapse_runs s"
proof (induction is_separator "''-''" s rule: replace_runs.induct)
  case 1
  show ?case by simp
next
  case (2 x xs)
  then show ?case
    by (cases "is_separator x") (simp_all add: collapse_runs_separator collapse_runs_other)
qed

lemma replace_hyphens_at_end_rev:
  "replace_hyphens_at_end s = rev (dropWhile (\<lambda>c. c = CHR ''-'') (rev s))"
proof (induction s)
  case Nil
  show ?case by simp
next
  case (Cons x xs)
  show ?case
  proof (cases "list_all (\<lambda>c. c = CHR ''-'') xs")
    case True
    then have "dropWhile (\<lambda>c. c = CHR ''-'') (rev xs) = []"
      by (simp add: list_all_iff)
    then show ?thesis using True Cons.IH
      by (simp add: dropWhile_append list_all_iff)
  next
    case False
    then have ne: "dropWhile (\<lambda>c. c = CHR ''-'') (rev xs) \<noteq> []"
      by (simp add: list_all_iff)
    then have "dropWhile (\<lambda>c. c = CHR ''-'') (rev xs @ [x]) =
        dropWhile (\<lambda>c. c = CHR ''-'') (rev xs) @ [x]"
      by (auto simp: dropWhile_append)
    then show ?thesis using False Cons.IH by simp
  qed
qed

lemma replace_edge_hyphens_trim: "replace_edge_hyphens s = trim_hyphens s"
  by (simp add: replace_edge_hyphens_def trim_hyphens_def replace_hyphens_at_end_rev)

lemma slugify_refines: "slugify text = slugify_spec text"
proof -
  have sep: "(\<lambda>c. is_space c \<or> c = CHR ''_'' \<or> c = CHR ''-'') = is_separator"
    by (simp add: is_separator_def fun_eq_iff)
  show ?thesis
    unfolding slugify_def slugify_spec_def sep
    by (simp add: replace_each_empty_filter replace_runs_collapse replace_edge_hyphens_trim)
qed

lemma slugify_weekend: "slugify ''Weekend Trip!'' = ''weekend-trip''"
  by code_simp

lemma slugify_a_b: "slugify ''  A -- B  '' = ''a-b''"
  by code_simp

text \<open>
  C6. Every route name and waypoint name that \<open>generateGpx\<close> writes into the document
  passes through \<open>escapeXml\<close>, and the five substitutions of \<open>escapeXml\<close>, made one
  after the other with \<open>&\<close> first, come to this: each character of the name is written
  as its own entity, once. An \<open>&\<close> of the name becomes exactly \<open>&amp;\<close>; the \<open>&\<close>
  of an entity written for another character is not escaped again.
\<close>

theorem escapeXml_each_character_once:
  "escapeXml s = concat (map xml_entity s) \<and>
   xml_entity CHR ''&'' = ''&amp;'' \<and>
   generateGpx P routeData customRouteName =
     gpx_header (concat (map xml_entity (or_else customRouteName (routeName routeData)))) @
     concat (map (\<lambda>(index, wp).
         ''      <trkpt lat=\"'' @ number_to_string P (lat wp) @
         ''\" lon=\"'' @ number_to_string P (lng wp) @ ''\">\<newline>'' @
         ''        <name>'' @
         concat (map xml_entity
           (or_else (name wp) (''Waypoint '' @ string_of_nat (index + 1)))) @
         ''</name>\<newline>'' @
         ''      </trkpt>\<newline>'')
       (zip [0 ..< length (waypoints routeData)] (waypoints routeData))) @
     gpx_footer"
proof -
  have "generateGpx P routeData customRouteName =
      gpx_header (escapeXml (or_else customRouteName (routeName routeData))) @
      concat (map (\<lambda>(index, wp). gpx_trkpt P index wp)
        (zip [0 ..< length (waypoints routeData)] (waypoints routeData))) @
      gpx_footer"
    by (simp add: generateGpx_def Let_def forEach_trkpt_concat)
  then show ?thesis
    by (simp add: escapeXml_entities gpx_trkpt_def Let_def xml_entity_def)
qed

theorem escapeXml_each_character_once_witness:
  "escapeXml ''Tom & Jerry's <\"best\"> &amp;'' =
     ''Tom &amp; Jerry&apos;s &lt;&quot;best&quot;&gt; &amp;amp;''"
  using escapeXml_each_character_once [of "''Tom & Jerry's <\"best\"> &amp;''", THEN conjunct1]
  by (simp add: xml_entity_def)

text \<open>
  C8. \<open>slugify\<close> is the composition the specification describes: lower-case, trim,
  strip every character that is not a word character, white space or a hyphen, collapse
  every run of white space, underscores and hyphens into a single hyphen, trim hyphens
  at both ends. It maps \<open>Weekend Trip!\<close> to \<open>weekend-trip\<close> and \<open>  A -- B  \<close> to
  \<open>a-b\<close>.
\<close>

theorem slugify_is_specified_pipeline:
  "slugify text = slugify_spec text \<and>
   slugify ''Weekend Trip!'' = ''weekend-trip'' \<and>
   slugify ''  A -- B  '' = ''a-b''"
  by (intro conjI) (rule slugify_refines slugify_weekend slugify_a_b)+

theorem slugify_is_specified_pipeline_witness:
  "slugify_spec ''Great_Ocean Road -- (Day 1)'' = ''great-ocean-road-day-1''"
proof -
  have "slugify ''Great_Ocean Road -- (Day 1)'' = ''great-ocean-road-day-1''"
    by code_simp
  then show ?thesis
    using slugify_is_specified_pipeline [of "''Great_Ocean Road -- (Day 1)''", THEN conjunct1]
    by simp
qed

text \<open>
  C10. An empty string as the name override is the same as no override: the document is
  the one written without an override, whose track name is \<open>route.routeName\<close>.
\<close>

theorem generateGpx_empty_override_is_absent:
  "generateGpx P routeData (Some '''') = generateGpx P routeData None \<and>
   generateGpx P routeData (Some '''') =
     forEach_trkpt P (gpx_header (escapeXml (routeName routeData))) 0 (waypoints routeData) @
     gpx_footer"
  by (simp add: generateGpx_def or_else_def)

theorem generateGpx_empty_override_is_absent_witness:
  "generateGpx ref_platform
     \<lparr>waypoints = [\<lparr>lat = Decimal True 33 ''8688'', lng = Decimal False 151 ''2093'',
                    name = Some ''Sydney''\<rparr>],
      routeName = ''Harbour walk''\<rparr> (Some '''') =
   generateGpx ref_platform
     \<lparr>waypoints = [\<lparr>lat = Decimal True 33 ''8688'', lng = Decimal False 151 ''2093'',
                    name = Some ''Sydney''\<rparr>],
      routeName = ''Harbour walk''\<rparr> None"
  using generateGpx_empty_override_is_absent [of ref_platform] by simp

subsection \<open>parseGoogleMapsUrl: filtering and the route name\<close>

lemma candidates_names:
  "candidates P url = Inr (wpts, locationNames) \<Longrightarrow> \<exists>w1. format1 P url = Inr (w1, locationNames)"
  by (auto simp: candidates_def split: option.splits sum.splits prod.splits)

lemma parse_success_candidates:
  "parseGoogleMapsUrl P url = Inr r \<Longrightarrow>
     \<exists>wpts locationNames. candidates P url = Inr (wpts, locationNames) \<and>
       waypoints r = filter (valid_waypoint P) wpts \<and> waypoints r \<noteq> [] \<and>
       routeName r = route_name locationNames (waypoints r)"
  by (auto simp: parseGoogleMapsUrl_def Let_def split: sum.splits prod.splits if_splits)

lemma nth_first_last:
  "2 \<le> length xs \<Longrightarrow> xs ! 0 = hd xs \<and> xs ! (length xs - Suc 0) = last xs"
  by (cases xs) (auto simp: last_conv_nth)

lemma route_name_hd_last:
  "route_name locationNames ws =
     (if 2 \<le> length locationNames then hd locationNames @ '' to '' @ last locationNames
      else if 2 \<le> length ws then
        or_else (name (hd ws)) ''Start'' @ '' to '' @ or_else (name (last ws)) ''End''
      else ''Google Maps Route'')"
  by (simp add: route_name_def nth_first_last)

text \<open>
  C2. Of the candidate waypoints \<open>parseGoogleMapsUrl\<close> keeps those that do not have both
  \<open>lat\<close> and \<open>lng\<close> equal to 0. If none is kept (also when the only candidate was a
  (0,0) waypoint) the function throws its extraction error and returns no route. So
  every route it returns has a waypoint, and each waypoint of it has a \<open>lat\<close> or a
  \<open>lng\<close> that is not 0.
\<close>

theorem parseGoogleMapsUrl_drops_zero_waypoints:
  "(candidates P url = Inr (wpts, locationNames) \<longrightarrow>
      (let kept = filter (\<lambda>w. \<not> (is_zero P (lat w) \<and> is_zero P (lng w))) wpts in
       if kept = [] then parseGoogleMapsUrl P url = Inl ExtractionError
       else \<exists>r. parseGoogleMapsUrl P url = Inr r \<and> waypoints r = kept)) \<and>
   (parseGoogleMapsUrl P url = Inr r \<longrightarrow>
      waypoints r \<noteq> [] \<and>
      (\<forall>w \<in> set (waypoints r). \<not> is_zero P (lat w) \<or> \<not> is_zero P (lng w)))"
proof (intro conjI impI)
  assume c: "candidates P url = Inr (wpts, locationNames)"
  have v: "valid_waypoint P = (\<lambda>w. \<not> (is_zero P (lat w) \<and> is_zero P (lng w)))"
    by (auto simp: valid_waypoint_def fun_eq_iff)
  show "let kept = filter (\<lambda>w. \<not> (is_zero P (lat w) \<and> is_zero P (lng w))) wpts in
       if kept = [] then parseGoogleMapsUrl P url = Inl ExtractionError
       else \<exists>r. parseGoogleMapsUrl P url = Inr r \<and> waypoints r = kept"
    using c by (simp add: parseGoogleMapsUrl_def Let_def v)
next
  assume "parseGoogleMapsUrl P url = Inr r"
  then obtain wpts where w: "waypoints r = filter (valid_waypoint P) wpts" "waypoints r \<noteq> []"
    using parse_success_candidates by blast
  then show "waypoints r \<noteq> []" by simp
  show "\<forall>w \<in> set (waypoints r). \<not> is_zero P (lat w) \<or> \<not> is_zero P (lng w)"
    using w by (auto simp: valid_waypoint_def)
qed

lemma or_else_cases:
  "or_else x d = (case x of None \<Rightarrow> d | Some n \<Rightarrow> if n = [] then d else n)"
  by (simp add: or_else_def split: option.splits)

text \<open>
  C4. The route name of a successful extraction: with at least two location names from
  the path, the first and the last of them, however many waypoints there are; else,
  with at least two waypoints left, the first waypoint's name, or \<open>Start\<close> when it has
  none or an empty one, and the last waypoint's name, or \<open>End\<close> when it has none or an
  empty one; else \<open>Google Maps Route\<close>.
\<close>

theorem parseGoogleMapsUrl_route_name:
  assumes "format1 P url = Inr (w1, locationNames)"
      and "parseGoogleMapsUrl P url = Inr r"
    shows "routeName r =
       (if 2 \<le> length locationNames then hd locationNames @ '' to '' @ last locationNames
        else if 2 \<le> length (waypoints r) then
          (case name (hd (waypoints r)) of
             None \<Rightarrow> ''Start''
           | Some n \<Rightarrow> if n = [] then ''Start'' else n) @ '' to '' @
          (case name (last (waypoints r)) of
             None \<Rightarrow> ''End''
           | Some n \<Rightarrow> if n = [] then ''End'' else n)
        else ''Google Maps Route'')"
proof -
  from assms(2) obtain wpts names where
    c: "candidates P url = Inr (wpts, names)" and
    n: "routeName r = route_name names (waypoints r)"
    using parse_success_candidates by blast
  from c assms(1) have "names = locationNames"
    by (auto dest: candidates_names)
  with n show ?thesis by (simp only: route_name_hd_last or_else_cases)
qed

theorem parseGoogleMapsUrl_drops_zero_waypoints_witness:
  "candidates ref_platform ''https://www.google.com/maps/place/Null+Island/@0,0,5z'' =
     Inr ([\<lparr>lat = Decimal False 0 [], lng = Decimal False 0 [], name = None\<rparr>], []) \<and>
   parseGoogleMapsUrl ref_platform ''https://www.google.com/maps/place/Null+Island/@0,0,5z'' =
     Inl ExtractionError"
proof -
  have c: "candidates ref_platform ''https://www.google.com/maps/place/Null+Island/@0,0,5z'' =
     Inr ([\<lparr>lat = Decimal False 0 [], lng = Decimal False 0 [], name = None\<rparr>], [])"
    by code_simp
  have z: "is_zero ref_platform (Decimal False 0 [])"
    by (simp add: ref_platform_def ref_is_zero_def)
  show ?thesis
    using parseGoogleMapsUrl_drops_zero_waypoints
      [of ref_platform "''https://www.google.com/maps/place/Null+Island/@0,0,5z''"
        "[\<lparr>lat = Decimal False 0 [], lng = Decimal False 0 [], name = None\<rparr>]" "[]"]
      c z
    by (simp add: Let_def)
qed

theorem parseGoogleMapsUrl_route_name_witness:
  "(format1 ref_platform ''https://www.google.com/maps/dir/Sydney/Melbourne/@-37.8,144.9,10z'' =
      Inr ([], [''Sydney'', ''Melbourne'']) \<and>
    parseGoogleMapsUrl ref_platform
        ''https://www.google.com/maps/dir/Sydney/Melbourne/@-37.8,144.9,10z'' =
      Inr \<lparr>waypoints = [\<lparr>lat = Decimal True 37 ''8'', lng = Decimal False 144 ''9'',
                           name = None\<rparr>],
           routeName = ''Sydney to Melbourne''\<rparr>) \<and>
   (format1 ref_platform
        ''https://www.google.com/maps/dir/Home/@-33.8,151.2,10z/data=!4m2!1d151.2!2d-33.8!1d144.9!2d-37.8'' =
      Inr ([], [''Home'']) \<and>
    parseGoogleMapsUrl ref_platform
        ''https://www.google.com/maps/dir/Home/@-33.8,151.2,10z/data=!4m2!1d151.2!2d-33.8!1d144.9!2d-37.8'' =
      Inr \<lparr>waypoints = [\<lparr>lat = Decimal True 33 ''8'', lng = Decimal False 151 ''2'',
                           name = Some ''Home''\<rparr>,
                         \<lparr>lat = Decimal True 37 ''8'', lng = Decimal False 144 ''9'',
                           name = Some ''End''\<rparr>],
           routeName = ''Home to End''\<rparr>) \<and>
   (format1 ref_platform ''https://www.google.com/maps/dir/-33.8,151.2/-37.8,144.9'' =
      Inr ([\<lparr>lat = Decimal True 33 ''8'', lng = Decimal False 151 ''2'', name = None\<rparr>,
            \<lparr>lat = Decimal True 37 ''8'', lng = Decimal False 144 ''9'', name = None\<rparr>],
           []) \<and>
    parseGoogleMapsUrl ref_platform ''https://www.google.com/maps/dir/-33.8,151.2/-37.8,144.9'' =
      Inr \<lparr>waypoints = [\<lparr>lat = Decimal True 33 ''8'', lng = Decimal False 151 ''2'',
                           name = None\<rparr>,
                         \<lparr>lat = Decimal True 37 ''8'', lng = Decimal False 144 ''9'',
                           name = None\<rparr>],
           routeName = ''Start to End''\<rparr>) \<and>
   (format1 ref_platform ''https://www.google.com/maps/dir/Home/-37.8,144.9'' =
      Inr ([\<lparr>lat = Decimal True 37 ''8'', lng = Decimal False 144 ''9'', name = None\<rparr>],
           [''Home'']) \<and>
    parseGoogleMapsUrl ref_platform ''https://www.google.com/maps/dir/Home/-37.8,144.9'' =
      Inr \<lparr>waypoints = [\<lparr>lat = Decimal True 37 ''8'', lng = Decimal False 144 ''9'',
                           name = None\<rparr>],
           routeName = ''Google Maps Route''\<rparr>)"
proof -
  have f1: "format1 ref_platform
       ''https://www.google.com/maps/dir/Sydney/Melbourne/@-37.8,144.9,10z'' =
     Inr ([], [''Sydney'', ''Melbourne''])"
    by code_simp
  have c1: "candidates ref_platform
       ''https://www.google.com/maps/dir/Sydney/Melbourne/@-37.8,144.9,10z'' =
     Inr ([\<lparr>lat = Decimal True 37 ''8'', lng = Decimal False 144 ''9'', name = None\<rparr>],
          [''Sydney'', ''Melbourne''])"
    by code_simp
  have f2: "format1 ref_platform
       ''https://www.google.com/maps/dir/Home/@-33.8,151.2,10z/data=!4m2!1d151.2!2d-33.8!1d144.9!2d-37.8'' =
     Inr ([], [''Home''])"
    by code_simp
  have c2: "candidates ref_platform
       ''https://www.google.com/maps/dir/Home/@-33.8,151.2,10z/data=!4m2!1d151.2!2d-33.8!1d144.9!2d-37.8'' =
     Inr ([\<lparr>lat = Decimal True 33 ''8'', lng = Decimal False 151 ''2'', name = Some ''Home''\<rparr>,
           \<lparr>lat = Decimal True 37 ''8'', lng = Decimal False 144 ''9'', name = Some ''End''\<rparr>],
          [''Home''])"
    by code_simp
  have f3: "format1 ref_platform ''https://www.google.com/maps/dir/-33.8,151.2/-37.8,144.9'' =
     Inr ([\<lparr>lat = Decimal True 33 ''8'', lng = Decimal False 151 ''2'', name = None\<rparr>,
           \<lparr>lat = Decimal True 37 ''8'', lng = Decimal False 144 ''9'', name = None\<rparr>],
          [])"
    by code_simp
  have c3: "candidates ref_platform ''https://www.google.com/maps/dir/-33.8,151.2/-37.8,144.9'' =
     Inr ([\<lparr>lat = Decimal True 33 ''8'', lng = Decimal False 151 ''2'', name = None\<rparr>,
           \<lparr>lat = Decimal True 37 ''8'', lng = Decimal False 144 ''9'', name = None\<rparr>],
          [])"
    by code_simp
  have f4: "format1 ref_platform ''https://www.google.com/maps/dir/Home/-37.8,144.9'' =
     Inr ([\<lparr>lat = Decimal True 37 ''8'', lng = Decimal False 144 ''9'', name = None\<rparr>],
          [''Home''])"
    by code_simp
  have c4: "candidates ref_platform ''https://www.google.com/maps/dir/Home/-37.8,144.9'' =
     Inr ([\<lparr>lat = Decimal True 37 ''8'', lng = Decimal False 144 ''9'', name = None\<rparr>],
          [''Home''])"
    by code_simp
  have z: "\<not> is_zero ref_platform (Decimal True 33 ''8'')"
          "\<not> is_zero ref_platform (Decimal True 37 ''8'')"
    by (simp_all add: ref_platform_def ref_is_zero_def)
  obtain r1 where p1: "parseGoogleMapsUrl ref_platform
       ''https://www.google.com/maps/dir/Sydney/Melbourne/@-37.8,144.9,10z'' = Inr r1"
    and w1: "waypoints r1 =
       [\<lparr>lat = Decimal True 37 ''8'', lng = Decimal False 144 ''9'', name = None\<rparr>]"
    using c1 z by (simp add: parseGoogleMapsUrl_def valid_waypoint_def Let_def)
  obtain r2 where p2: "parseGoogleMapsUrl ref_platform
       ''https://www.google.com/maps/dir/Home/@-33.8,151.2,10z/data=!4m2!1d151.2!2d-33.8!1d144.9!2d-37.8'' = Inr r2"
    and w2: "waypoints r2 =
       [\<lparr>lat = Decimal True 33 ''8'', lng = Decimal False 151 ''2'', name = Some ''Home''\<rparr>,
        \<lparr>lat = Decimal True 37 ''8'', lng = Decimal False 144 ''9'', name = Some ''End''\<rparr>]"
    using c2 z by (simp add: parseGoogleMapsUrl_def valid_waypoint_def Let_def)
  obtain r3 where p3: "parseGoogleMapsUrl ref_platform
       ''https://www.google.com/maps/dir/-33.8,151.2/-37.8,144.9'' = Inr r3"
    and w3: "waypoints r3 =
       [\<lparr>lat = Decimal True 33 ''8'', lng = Decimal False 151 ''2'', name = None\<rparr>,
        \<lparr>lat = Decimal True 37 ''8'', lng = Decimal False 144 ''9'', name = None\<rparr>]"
    using c3 z by (simp add: parseGoogleMapsUrl_def valid_waypoint_def Let_def)
  obtain r4 where p4: "parseGoogleMapsUrl ref_platform
       ''https://www.google.com/maps/dir/Home/-37.8,144.9'' = Inr r4"
    and w4: "waypoints r4 =
       [\<lparr>lat = Decimal True 37 ''8'', lng = Decimal False 144 ''9'', name = None\<rparr>]"
    using c4 z by (simp add: parseGoogleMapsUrl_def valid_waypoint_def Let_def)
  have n1: "routeName r1 = ''Sydney to Melbourne''"
    using parseGoogleMapsUrl_route_name [OF f1 p1] by simp
  have n2: "routeName r2 = ''Home to End''"
    using parseGoogleMapsUrl_route_name [OF f2 p2] w2 by simp
  have n3: "routeName r3 = ''Start to End''"
    using parseGoogleMapsUrl_route_name [OF f3 p3] w3 by simp
  have n4: "routeName r4 = ''Google Maps Route''"
    using parseGoogleMapsUrl_route_name [OF f4 p4] w4 by simp
  have e: "\<And>r :: decimal RouteData. r = \<lparr>waypoints = waypoints r, routeName = routeName r\<rparr>"
    by simp
  show ?thesis
    using f1 f2 f3 f4 p1 p2 p3 p4 e [of r1] e [of r2] e [of r3] e [of r4]
    by (simp only: w1 w2 w3 w4 n1 n2 n3 n4 simp_thms)
qed

subsection \<open>parseGoogleMapsUrl: the path segments\<close>



lemma strip_prefix_append: "strip_prefix p s = Some r \<Longrightarrow> s = p @ r"
  by (induction p s rule: strip_prefix.induct) (auto split: if_splits)


text \<open>
  What \<open>/LIT([class]+)/\<close> captures stands right behind an occurrence of \<open>LIT\<close>, is not
  empty, holds class characters only and ends where the class does or the string ends.
\<close>

lemma match_after_shape:
  "match_after lit cls s = Some g \<Longrightarrow>
     \<exists>pre rest. s = pre @ lit @ g @ rest \<and> g \<noteq> [] \<and> list_all cls g \<and>
       (rest = [] \<or> \<not> cls (hd rest))"
proof (induction lit cls s rule: match_after.induct)
  case (1 lit cls)
  then show ?case by simp
next
  case (2 lit cls x xs)
  show ?case
  proof (cases "strip_prefix lit (x # xs)")
    case None
    with 2 obtain pre rest where "xs = pre @ lit @ g @ rest" "g \<noteq> []" "list_all cls g"
      "rest = [] \<or> \<not> cls (hd rest)" by auto
    then have "x # xs = (x # pre) @ lit @ g @ rest" by simp
    then show ?thesis using \<open>g \<noteq> []\<close> \<open>list_all cls g\<close> \<open>rest = [] \<or> \<not> cls (hd rest)\<close>
      by blast
  next
    case (Some r)
    show ?thesis
    proof (cases "takeWhile cls r = []")
      case True
      with 2 Some obtain pre rest where "xs = pre @ lit @ g @ rest" "g \<noteq> []" "list_all cls g"
        "rest = [] \<or> \<not> cls (hd rest)" by auto
      then have "x # xs = (x # pre) @ lit @ g @ rest" by simp
      then show ?thesis using \<open>g \<noteq> []\<close> \<open>list_all cls g\<close> \<open>rest = [] \<or> \<not> cls (hd rest)\<close>
        by blast
    next
      case False
      with 2 Some have g: "g = takeWhile cls r" by simp
      have "x # xs = [] @ lit @ g @ dropWhile cls r"
        using strip_prefix_append [OF Some] g by simp
      moreover have "list_all cls g" unfolding g list_all_iff by (auto dest: set_takeWhileD)
      moreover have "dropWhile cls r = [] \<or> \<not> cls (hd (dropWhile cls r))"
        using hd_dropWhile by blast
      ultimately show ?thesis using False g by blast
    qed
  qed
qed


text \<open>The number expression takes signed decimals, and every signed decimal.\<close>

lemma opt_char_minus_digit:
  "is_digit c \<Longrightarrow> opt_char CHR ''-'' (c # r) = ([], c # r)"
  by (auto simp: opt_char_def is_digit_def)










text \<open>\<open>split("/")\<close> gives back the segments a text was put together from.\<close>

lemma split_on_not_Nil: "split_on sep s \<noteq> []"
  by (induction s) (auto split: list.splits)











subsection \<open>parseGoogleMapsUrl: the data parameter\<close>























subsection \<open>Reading back what generateGpx writes\<close>

text \<open>\<open>build\<close> turns the tags of a tree back into the tree.\<close>

lemma fold_add_child:
  "fold add_child xs ((n, as, acc) # stack) = (n, as, rev xs @ acc) # stack"
  by (induction xs arbitrary: acc) auto

lemma build_forest_aux:
  assumes "\<And>x ts stack. x \<in> set xs \<Longrightarrow> stack \<noteq> [] \<Longrightarrow>
             build (xml_tokens x @ ts) stack = build ts (add_child x stack)"
      and "stack \<noteq> []"
    shows "build (concat (map xml_tokens xs) @ ts) stack = build ts (fold add_child xs stack)"
  using assms
proof (induction xs arbitrary: stack)
  case Nil
  show ?case by simp
next
  case (Cons x xs)
  have ne: "add_child x stack \<noteq> []" using Cons.prems(2) by (cases stack) auto
  have "build (xml_tokens x @ concat (map xml_tokens xs) @ ts) stack =
      build (concat (map xml_tokens xs) @ ts) (add_child x stack)"
    using Cons.prems by simp
  also have "\<dots> = build ts (fold add_child xs (add_child x stack))"
    using Cons.IH [OF _ ne] Cons.prems(1) by simp
  finally show ?case by simp
qed

lemma build_xml_tokens:
  "stack \<noteq> [] \<Longrightarrow> build (xml_tokens x @ ts) stack = build ts (add_child x stack)"
proof (induction x arbitrary: ts stack)
  case (Text t)
  show ?case by simp
next
  case (Element n as children)
  obtain outer stack' where st: "stack = outer # stack'"
    using Element.prems by (cases stack) auto
  have "build (xml_tokens (Element n as children) @ ts) stack =
      build (concat (map xml_tokens children) @ End_tag n # ts) ((n, as, []) # stack)"
    by simp
  also have "\<dots> = build (End_tag n # ts) (fold add_child children ((n, as, []) # stack))"
    by (rule build_forest_aux) (simp_all add: Element.IH)
  also have "\<dots> = build ts (add_child (Element n as children) stack)"
    by (simp add: fold_add_child st)
  finally show ?case .
qed

lemma build_document: "build (concat (map xml_tokens items)) [([], [], [])] = Some items"
proof -
  have "build (concat (map xml_tokens items) @ []) [([], [], [])] =
      build [] (fold add_child items [([], [], [])])"
    by (rule build_forest_aux) (simp_all add: build_xml_tokens)
  then show ?thesis by (simp add: fold_add_child)
qed

text \<open>Expanding the references of an escaped text gives the text back.\<close>

lemma expand_references_entity:
  "expand_references (xml_entity x @ s) = map_option ((#) x) (expand_references s)"
  by (simp add: xml_entity_def entities_def)

lemma escapeXml_Nil: "escapeXml [] = []"
  by (simp add: escapeXml_entities)

lemma expand_references_escapeXml: "expand_references (escapeXml s) = Some s"
  by (induction s) (simp_all add: escapeXml_Cons escapeXml_Nil expand_references_entity)

lemma xml_entity_chars:
  "CHR ''<'' \<notin> set (xml_entity x)" "CHR ''>'' \<notin> set (xml_entity x)"
  "xml_entity x \<noteq> []"
  by (simp_all add: xml_entity_def)

lemma escapeXml_no_angle:
  "CHR ''<'' \<notin> set (escapeXml s)" "CHR ''>'' \<notin> set (escapeXml s)"
  by (simp_all add: escapeXml_entities xml_entity_chars)

lemma escapeXml_empty: "escapeXml s = [] \<longleftrightarrow> s = []"
  by (cases s) (simp_all add: escapeXml_entities xml_entity_chars)

lemma no_gt_no_cdata_end: "CHR ''>'' \<notin> set s \<Longrightarrow> \<not> has_cdata_end s"
  by (induction s rule: has_cdata_end.induct) auto

lemma escapeXml_text_chars:
  "list_all xml_text_char s \<Longrightarrow> list_all xml_text_char (escapeXml s)"
  by (induction s)
     (auto simp: escapeXml_entities xml_entity_def xml_text_char_def xml_char_def)

text \<open>Character data in front of a tag is one token.\<close>

lemma tokens_text:
  assumes "t \<noteq> []" "CHR ''<'' \<notin> set t" "\<not> has_cdata_end t" "expand_references t = Some t'"
  shows "tokens (t @ CHR ''<'' # rest) =
     map_option ((#) (Char_data t')) (tokens (CHR ''<'' # rest))"
proof -
  obtain c s where t: "t = c # s" using assms(1) by (cases t) auto
  have c: "c \<noteq> CHR ''<''" and s: "\<forall>x \<in> set s. x \<noteq> CHR ''<''"
    using assms(2) t by auto
  have tw: "takeWhile (\<lambda>x. x \<noteq> CHR ''<'') (c # s @ CHR ''<'' # rest) = t"
    using c s t by (simp add: takeWhile_append)
  have dw: "dropWhile (\<lambda>x. x \<noteq> CHR ''<'') (s @ CHR ''<'' # rest) = CHR ''<'' # rest"
    using s by (simp add: dropWhile_append)
  have "tokens (c # s @ CHR ''<'' # rest) =
      map_option ((#) (Char_data t')) (tokens (CHR ''<'' # rest))"
    unfolding tokens.simps tw dw using c assms(3,4) by simp
  then show ?thesis by (simp add: t)
qed

lemma prepend_simps:
  "prepend [] x = x"
  "prepend as (prepend bs x) = prepend (as @ bs) x"
  "prepend as (Some ys) = Some (as @ ys)"
  by (cases x; simp add: prepend_def)+

lemma map_option_Cons_prepend: "map_option ((#) a) x = prepend [a] x"
  by (cases x) (simp_all add: prepend_def)

lemma tokens_escaped_text:
  "tokens (escapeXml s @ CHR ''<'' # rest) =
     prepend (concat (map xml_tokens (text_nodes s))) (tokens (CHR ''<'' # rest))"
proof (cases "s = []")
  case True
  then show ?thesis
    by (simp add: text_nodes_def escapeXml_Nil prepend_simps)
next
  case False
  then have "tokens (escapeXml s @ CHR ''<'' # rest) =
      map_option ((#) (Char_data s)) (tokens (CHR ''<'' # rest))"
    by (intro tokens_text)
       (simp_all add: escapeXml_empty escapeXml_no_angle no_gt_no_cdata_end
          expand_references_escapeXml)
  then show ?thesis using False by (simp add: text_nodes_def map_option_Cons_prepend)
qed

lemma tokens_tag:
  "parse_tag (CHR ''<'' # s) = Some (t, rest) \<Longrightarrow>
     tokens (CHR ''<'' # s) = prepend [t] (tokens rest)"
  by (simp add: tokens.simps map_option_Cons_prepend)

end
